theory Spec2Isabelle
  imports Main "HOL-Library.Word"
begin

section \<open>GrProxyProvider: the data of the header\<close>

text \<open>
  The development follows \<^verbatim>\<open>src/gpu/GrProxyProvider.h\<close>. A C++ pointer is an address
  (\<open>ptr\<close>); a pointer that may be null is a \<open>ptr option\<close>, \<open>None\<close> being
  \<^verbatim>\<open>nullptr\<close>. Objects that are shared by reference (texture proxies, backend surfaces)
  live in explicit stores, maps from addresses to values.
\<close>

type_synonym ptr = nat

text \<open>
  Modelled from the spec: the enumerations and the flags that the signatures of the
  header use, whose declarations are in headers that are not among the sources. The
  origin is top-left or bottom-left, the fit policy exact or approximate, a proxy counts
  against the budget or not; the header itself names the values \<^verbatim>\<open>GrMipMapped::kNo\<close> and
  \<^verbatim>\<open>GrInternalSurfaceFlags::kNone\<close>, the empty set of flags.
\<close>

datatype GrSurfaceOrigin = kTopLeft_GrSurfaceOrigin | kBottomLeft_GrSurfaceOrigin

datatype GrMipMapped = GrMipMapped_kNo | GrMipMapped_kYes

datatype SkBackingFit = SkBackingFit_kApprox | SkBackingFit_kExact

datatype SkBudgeted = SkBudgeted_kNo | SkBudgeted_kYes

type_synonym GrInternalSurfaceFlags = "32 word"

definition GrInternalSurfaceFlags_kNone :: GrInternalSurfaceFlags where
  "GrInternalSurfaceFlags_kNone = 0"

text \<open>
  Modelled from the spec: the surface descriptor, declared in a header that is not among
  the sources: width, height, pixel layout tag and sample count.
\<close>

record GrSurfaceDesc =
  fWidth :: int
  fHeight :: int
  fConfig :: nat
  fSampleCnt :: int

text \<open>
  Modelled from the spec: the unique key, declared in \<^verbatim>\<open>GrResourceKey.h\<close>, which is not
  among the sources: a content hash and an optional domain tag, compared structurally.
  In the header \<^verbatim>\<open>key.hash()\<close> is a \<^verbatim>\<open>uint32_t\<close>.
\<close>

record GrUniqueKey =
  keyHash :: "32 word"
  keyDomain :: "nat option"

text \<open>
  Modelled from the spec: a backend surface (\<^verbatim>\<open>GrSurface\<close>, \<^verbatim>\<open>GrTexture\<close>), declared in
  headers that are not among the sources: its real dimensions and the unique key
  attached to the resource itself, if any.
\<close>

record GrSurface =
  surfWidth :: int
  surfHeight :: int
  surfUniqueKey :: "GrUniqueKey option"

text \<open>
  Modelled from the spec: a texture proxy, declared in \<^verbatim>\<open>GrTextureProxy.h\<close>, which is not
  among the sources: the arguments it was created with, zero or one unique key (\<open>None\<close>
  is the invalid key of a proxy that carries none) and its target surface once it is
  instantiated.
\<close>

record GrTextureProxy =
  fDesc :: GrSurfaceDesc
  fOrigin :: GrSurfaceOrigin
  fMipMapped :: GrMipMapped
  fFit :: SkBackingFit
  fBudgeted :: SkBudgeted
  fSurfaceFlags :: GrInternalSurfaceFlags
  fUniqueKey :: "GrUniqueKey option"
  fTarget :: "ptr option"

text \<open>
  The provider's members, in the order of the class. \<open>fUniquelyKeyedProxies\<close> is the
  \<^verbatim>\<open>SkTDynamicHash<GrTextureProxy, GrUniqueKey, UniquelyKeyedProxyHashTraits>\<close>: it stores
  pointers to proxies and holds no reference on them; the key of an entry is read off the
  proxy by \<open>GetKey\<close>. The list keeps the entries as stored, so that two entries with equal
  keys are representable. \<^verbatim>\<open>fSingleOwner\<close> exists in debug builds only and guards
  threads; it is left out.
\<close>

record GrProxyProvider =
  fUniquelyKeyedProxies :: "ptr list"
  fResourceProvider :: "ptr option"
  fResourceCache :: "ptr option"
  fAbandoned :: bool
  fCaps :: "ptr option"

datatype error = AssertionFailed

section \<open>The member functions the header defines inline\<close>

text \<open>\<^verbatim>\<open>UniquelyKeyedProxyHashTraits::GetKey\<close> and \<^verbatim>\<open>::Hash\<close>.\<close>

definition GetKey :: "GrTextureProxy \<Rightarrow> GrUniqueKey option" where
  "GetKey p = fUniqueKey p"

definition Hash :: "GrUniqueKey \<Rightarrow> 32 word" where
  "Hash key = keyHash key"

text \<open>\<^verbatim>\<open>caps()\<close> returns \<^verbatim>\<open>fCaps.get()\<close>.\<close>

definition caps :: "GrProxyProvider \<Rightarrow> ptr option" where
  "caps s = fCaps s"

text \<open>
  \<^verbatim>\<open>void abandon() { fResourceCache = nullptr; fResourceProvider = nullptr;
  fAbandoned = true; }\<close>
\<close>

definition abandon :: "GrProxyProvider \<Rightarrow> GrProxyProvider" where
  "abandon s = s\<lparr>fResourceCache := None, fResourceProvider := None, fAbandoned := True\<rparr>"

text \<open>
  Modelled from the spec: \<^verbatim>\<open>SkToBool\<close>, which the header uses and does not define. The
  provider records a deferred list when it has no live allocator: \<^verbatim>\<open>SkToBool\<close> of a
  pointer says that the pointer is not null.
\<close>

definition SkToBool :: "ptr option \<Rightarrow> bool" where
  "SkToBool p = (p \<noteq> None)"

text \<open>
  \<^verbatim>\<open>isAbandoned()\<close>. The first argument says whether \<^verbatim>\<open>SK_DEBUG\<close> is defined: then an
  abandoned provider asserts that both pointers are null, and a failed \<^verbatim>\<open>SkASSERT\<close>
  aborts. Otherwise the function returns the flag.
\<close>

definition isAbandoned :: "bool \<Rightarrow> GrProxyProvider \<Rightarrow> error + bool" where
  "isAbandoned sk_debug s =
     (if sk_debug \<and> fAbandoned s \<and>
         \<not> (fResourceCache s = None \<and> fResourceProvider s = None)
      then Inl AssertionFailed
      else Inr (fAbandoned s))"

text \<open>\<^verbatim>\<open>bool recordingDDL() const { return !SkToBool(fResourceProvider); }\<close>\<close>

definition recordingDDL :: "GrProxyProvider \<Rightarrow> bool" where
  "recordingDDL s = (\<not> SkToBool (fResourceProvider s))"

text \<open>
  The shorter \<^verbatim>\<open>createProxy\<close> overload forwards to the full one, which the header only
  declares. The full overload is the first argument here; the provider it runs on and
  whatever else it reads or changes is the state \<open>'w\<close>, and it returns the proxy (or
  null) with the state it leaves.
\<close>

type_synonym 'w createProxy_full =
  "GrSurfaceDesc \<Rightarrow> GrSurfaceOrigin \<Rightarrow> GrMipMapped \<Rightarrow> SkBackingFit \<Rightarrow> SkBudgeted \<Rightarrow>
   GrInternalSurfaceFlags \<Rightarrow> 'w \<Rightarrow> ptr option \<times> 'w"

definition createProxy_overload ::
  "'w createProxy_full \<Rightarrow> GrSurfaceDesc \<Rightarrow> GrSurfaceOrigin \<Rightarrow> SkBackingFit \<Rightarrow> SkBudgeted \<Rightarrow>
   GrInternalSurfaceFlags \<Rightarrow> 'w \<Rightarrow> ptr option \<times> 'w" where
  "createProxy_overload createProxy desc origin fit budgeted surfaceFlags w =
     createProxy desc origin GrMipMapped_kNo fit budgeted surfaceFlags w"

text \<open>
  The same overload called without its last argument: the default argument
  \<^verbatim>\<open>GrInternalSurfaceFlags::kNone\<close> is passed.
\<close>

definition createProxy_overload_default ::
  "'w createProxy_full \<Rightarrow> GrSurfaceDesc \<Rightarrow> GrSurfaceOrigin \<Rightarrow> SkBackingFit \<Rightarrow> SkBudgeted \<Rightarrow>
   'w \<Rightarrow> ptr option \<times> 'w" where
  "createProxy_overload_default createProxy desc origin fit budgeted w =
     createProxy_overload createProxy desc origin fit budgeted GrInternalSurfaceFlags_kNone w"

section \<open>The provider among its proxies and surfaces\<close>

text \<open>
  The bodies of the other member functions are not in the header. What follows models
  them on a state that holds the provider, the store of texture proxies and the store
  of backend surfaces. Proxies are allocated at increasing addresses, \<open>nextProxy\<close>
  being the next free one. Where the spec has a call fail, the functions take the
  release-build reading: the call changes nothing and returns false or null.
\<close>

record world =
  provider :: GrProxyProvider
  proxies :: "ptr \<rightharpoonup> GrTextureProxy"
  surfaces :: "ptr \<rightharpoonup> GrSurface"
  nextProxy :: ptr

text \<open>
  Modelled from the spec: the constructor, whose body is not in the header. A provider
  is created bound to a resource provider and a cache (the resource provider is null for
  a provider that only records a deferred list), is not abandoned, and its table is
  empty.
\<close>

definition GrProxyProvider_new ::
  "ptr option \<Rightarrow> ptr option \<Rightarrow> ptr option \<Rightarrow> GrProxyProvider" where
  "GrProxyProvider_new resourceProvider resourceCache gpuCaps =
     \<lparr>fUniquelyKeyedProxies = [], fResourceProvider = resourceProvider,
      fResourceCache = resourceCache, fAbandoned = False, fCaps = gpuCaps\<rparr>"

definition newWorld ::
  "ptr option \<Rightarrow> ptr option \<Rightarrow> ptr option \<Rightarrow> (ptr \<rightharpoonup> GrSurface) \<Rightarrow> world" where
  "newWorld resourceProvider resourceCache gpuCaps backend =
     \<lparr>provider = GrProxyProvider_new resourceProvider resourceCache gpuCaps,
      proxies = Map.empty, surfaces = backend, nextProxy = 0\<rparr>"

text \<open>
  The key of the table entry \<open>p\<close>: \<open>GetKey\<close> of the proxy at that address. An address
  with no proxy has no key.
\<close>

definition proxyKey :: "world \<Rightarrow> ptr \<Rightarrow> GrUniqueKey option" where
  "proxyKey w p = (case proxies w p of None \<Rightarrow> None | Some px \<Rightarrow> GetKey px)"

text \<open>
  Modelled from the spec: \<^verbatim>\<open>SkTDynamicHash::find\<close> and \<^verbatim>\<open>::remove\<close>, whose header is not
  among the sources. The lookup is by structural equality of the key and returns the
  first entry that matches; the removal erases that entry.
\<close>

definition table_find :: "world \<Rightarrow> GrUniqueKey \<Rightarrow> ptr option" where
  "table_find w key =
     List.find (\<lambda>p. proxyKey w p = Some key) (fUniquelyKeyedProxies (provider w))"

fun remove_first :: "('a \<Rightarrow> bool) \<Rightarrow> 'a list \<Rightarrow> 'a list" where
  "remove_first P [] = []"
| "remove_first P (x # xs) = (if P x then xs else x # remove_first P xs)"

definition table_remove :: "world \<Rightarrow> GrUniqueKey \<Rightarrow> ptr list" where
  "table_remove w key =
     remove_first (\<lambda>p. proxyKey w p = Some key) (fUniquelyKeyedProxies (provider w))"

text \<open>The keys of the entries of the table, in the order of the entries.\<close>

definition tableKeys :: "world \<Rightarrow> GrUniqueKey list" where
  "tableKeys w = List.map_filter (proxyKey w) (fUniquelyKeyedProxies (provider w))"

text \<open>
  Modelled from the spec: \<^verbatim>\<open>assignUniqueKeyToProxy\<close>, whose body is not in the header.
  It attaches the key to the proxy and inserts the proxy into the table. It fails, and
  changes nothing, after abandonment, for a null proxy, if the proxy already carries a
  key, or if the key already maps to a proxy.
\<close>

definition assignUniqueKeyToProxy :: "GrUniqueKey \<Rightarrow> ptr \<Rightarrow> world \<Rightarrow> bool \<times> world" where
  "assignUniqueKeyToProxy key p w =
     (if fAbandoned (provider w) then (False, w)
      else case proxies w p of
        None \<Rightarrow> (False, w)
      | Some px \<Rightarrow>
          if fUniqueKey px \<noteq> None then (False, w)
          else if table_find w key \<noteq> None then (False, w)
          else (True,
                w\<lparr>provider := (provider w)
                     \<lparr>fUniquelyKeyedProxies := p # fUniquelyKeyedProxies (provider w)\<rparr>,
                  proxies := (proxies w)(p \<mapsto> px\<lparr>fUniqueKey := Some key\<rparr>)\<rparr>))"

text \<open>
  Modelled from the spec: \<^verbatim>\<open>adoptUniqueKeyFromSurface\<close>, whose body is not in the
  header. It sets the unique key of the proxy to the unique key of the surface and
  registers the proxy in the table; the surface must carry a valid key. Neither the
  spec nor the header has the call refuse a key that is already registered or a proxy
  that already carries a key. After abandonment it does nothing, as every mutating
  call.
\<close>

definition adoptUniqueKeyFromSurface :: "ptr \<Rightarrow> ptr \<Rightarrow> world \<Rightarrow> world" where
  "adoptUniqueKeyFromSurface p surf w =
     (if fAbandoned (provider w) then w
      else case proxies w p of
        None \<Rightarrow> w
      | Some px \<Rightarrow>
          (case surfaces w surf of
             None \<Rightarrow> w
           | Some sf \<Rightarrow>
               (case surfUniqueKey sf of
                  None \<Rightarrow> w
                | Some key \<Rightarrow>
                    w\<lparr>provider := (provider w)
                         \<lparr>fUniquelyKeyedProxies := p # fUniquelyKeyedProxies (provider w)\<rparr>,
                      proxies := (proxies w)(p \<mapsto> px\<lparr>fUniqueKey := Some key\<rparr>)\<rparr>)))"

text \<open>Stripping the unique key from a backend surface.\<close>

definition removeUniqueKey_surface ::
  "ptr \<Rightarrow> (ptr \<rightharpoonup> GrSurface) \<Rightarrow> (ptr \<rightharpoonup> GrSurface)" where
  "removeUniqueKey_surface surf backend =
     (case backend surf of
        None \<Rightarrow> backend
      | Some sf \<Rightarrow> backend(surf \<mapsto> sf\<lparr>surfUniqueKey := None\<rparr>))"

text \<open>
  Modelled from the spec: \<^verbatim>\<open>processInvalidProxyUniqueKey(key, proxy, invalidateSurface)\<close>,
  whose body is not in the header. The proxy's key must be valid and match the key
  passed in. The entry is erased from the table and the key is taken off the proxy; when
  asked to, and when the proxy is instantiated, the key is also stripped from the backend
  surface. After abandonment the call does nothing.
\<close>

definition processInvalidProxyUniqueKey_proxy ::
  "GrUniqueKey \<Rightarrow> ptr \<Rightarrow> bool \<Rightarrow> world \<Rightarrow> world" where
  "processInvalidProxyUniqueKey_proxy key p invalidateSurface w =
     (if fAbandoned (provider w) then w
      else case proxies w p of
        None \<Rightarrow> w
      | Some px \<Rightarrow>
          if GetKey px \<noteq> Some key then w
          else
            let w1 = w\<lparr>provider := (provider w)\<lparr>fUniquelyKeyedProxies := table_remove w key\<rparr>,
                       proxies := (proxies w)(p \<mapsto> px\<lparr>fUniqueKey := None\<rparr>)\<rparr>
            in (case fTarget px of
                  None \<Rightarrow> w1
                | Some surf \<Rightarrow>
                    if invalidateSurface
                    then w1\<lparr>surfaces := removeUniqueKey_surface surf (surfaces w1)\<rparr>
                    else w1))"

text \<open>
  Modelled from the spec: \<^verbatim>\<open>processInvalidProxyUniqueKey(key)\<close>, whose body is not in the
  header. It looks the key up and erases whatever is registered under it; this does not
  alter the unique key attached to the backend texture. A key that is absent is not an
  error: the function returns nothing, and there is nothing it reports.
\<close>

definition processInvalidProxyUniqueKey :: "GrUniqueKey \<Rightarrow> world \<Rightarrow> world" where
  "processInvalidProxyUniqueKey key w =
     (if fAbandoned (provider w) then w
      else case table_find w key of
        None \<Rightarrow> w
      | Some p \<Rightarrow> processInvalidProxyUniqueKey_proxy key p False w)"

text \<open>
  Modelled from the spec: \<^verbatim>\<open>removeUniqueKeyFromProxy\<close>, whose body is not in the header.
  It removes the key from the proxy and, if the proxy has been instantiated, from the
  target surface too.
\<close>

definition removeUniqueKeyFromProxy :: "GrUniqueKey \<Rightarrow> ptr \<Rightarrow> world \<Rightarrow> world" where
  "removeUniqueKeyFromProxy key p w =
     (if fAbandoned (provider w) then w
      else processInvalidProxyUniqueKey_proxy key p True w)"

text \<open>
  Modelled from the spec: \<^verbatim>\<open>findProxyByUniqueKey\<close>, whose body is not in the header: a
  single lookup by key, with no ranking; empty after abandonment.
\<close>

definition findProxyByUniqueKey ::
  "GrUniqueKey \<Rightarrow> GrSurfaceOrigin \<Rightarrow> world \<Rightarrow> ptr option" where
  "findProxyByUniqueKey key origin w =
     (if fAbandoned (provider w) then None else table_find w key)"

text \<open>
  Modelled from the spec: the full \<^verbatim>\<open>createProxy\<close> overload, whose body is not in the
  header. It creates a proxy without data: not instantiated, carrying no key. After
  abandonment it returns null.
\<close>

definition createProxy :: "world createProxy_full" where
  "createProxy desc origin mipMapped fit budgeted surfaceFlags w =
     (if fAbandoned (provider w) then (None, w)
      else (Some (nextProxy w),
            w\<lparr>proxies := (proxies w)(nextProxy w \<mapsto>
                   \<lparr>fDesc = desc, fOrigin = origin, fMipMapped = mipMapped, fFit = fit,
                    fBudgeted = budgeted, fSurfaceFlags = surfaceFlags,
                    fUniqueKey = None, fTarget = None\<rparr>),
              nextProxy := Suc (nextProxy w)\<rparr>))"

text \<open>
  Modelled from the spec: the end of a proxy's life, which is code of the proxy class.
  When the last owner drops a proxy that carries a key, the provider is notified to
  erase the table entry; then the proxy is gone.
\<close>

definition releaseProxy :: "ptr \<Rightarrow> world \<Rightarrow> world" where
  "releaseProxy p w =
     (case proxies w p of
        None \<Rightarrow> w
      | Some px \<Rightarrow>
          let w1 = (case GetKey px of
                      None \<Rightarrow> w
                    | Some key \<Rightarrow> processInvalidProxyUniqueKey_proxy key p False w)
          in w1\<lparr>proxies := (proxies w1)(p := None)\<rparr>)"

text \<open>
  Modelled from the spec: instantiation, which is code of the proxy class. It binds a
  backend surface to a proxy that has none yet.
\<close>

definition instantiate :: "ptr \<Rightarrow> ptr \<Rightarrow> world \<Rightarrow> world" where
  "instantiate p surf w =
     (case proxies w p of
        None \<Rightarrow> w
      | Some px \<Rightarrow>
          (case surfaces w surf of
             None \<Rightarrow> w
           | Some sf \<Rightarrow>
               if fTarget px \<noteq> None then w
               else w\<lparr>proxies := (proxies w)(p \<mapsto> px\<lparr>fTarget := Some surf\<rparr>)\<rparr>))"

text \<open>
  Modelled from the spec: \<^verbatim>\<open>IsFunctionallyExact\<close>, whose body is not in the header. A
  proxy with the exact fit policy is backed by a surface of the requested dimensions. A
  proxy with the approximate fit policy may be backed by a larger surface, and is
  functionally exact when the dimensions of its surface equal the requested ones. What
  the function answers for an approximate proxy that is not instantiated yet is not
  said; that answer is the first argument.
\<close>

definition IsFunctionallyExact ::
  "(GrTextureProxy \<Rightarrow> bool) \<Rightarrow> (ptr \<rightharpoonup> GrSurface) \<Rightarrow> GrTextureProxy \<Rightarrow> bool" where
  "IsFunctionallyExact pendingExact backend proxy =
     (fFit proxy = SkBackingFit_kExact \<or>
      (case fTarget proxy of
         None \<Rightarrow> pendingExact proxy
       | Some surf \<Rightarrow>
           (case backend surf of
              None \<Rightarrow> False
            | Some sf \<Rightarrow>
                surfWidth sf = fWidth (fDesc proxy) \<and> surfHeight sf = fHeight (fDesc proxy))))"

section \<open>Sequences of calls\<close>

datatype call =
    AssignUniqueKeyToProxy GrUniqueKey ptr
  | AdoptUniqueKeyFromSurface ptr ptr
  | RemoveUniqueKeyFromProxy GrUniqueKey ptr
  | ProcessInvalidProxyUniqueKey GrUniqueKey
  | ProcessInvalidProxyUniqueKey_proxy GrUniqueKey ptr bool
  | FindProxyByUniqueKey GrUniqueKey GrSurfaceOrigin
  | CreateProxy GrSurfaceDesc GrSurfaceOrigin GrMipMapped SkBackingFit SkBudgeted
      GrInternalSurfaceFlags
  | CreateProxy_overload GrSurfaceDesc GrSurfaceOrigin SkBackingFit SkBudgeted
      GrInternalSurfaceFlags
  | Abandon
  | ReleaseProxy ptr
  | Instantiate ptr ptr

fun exec :: "call \<Rightarrow> world \<Rightarrow> world" where
  "exec (AssignUniqueKeyToProxy key p) w = snd (assignUniqueKeyToProxy key p w)"
| "exec (AdoptUniqueKeyFromSurface p surf) w = adoptUniqueKeyFromSurface p surf w"
| "exec (RemoveUniqueKeyFromProxy key p) w = removeUniqueKeyFromProxy key p w"
| "exec (ProcessInvalidProxyUniqueKey key) w = processInvalidProxyUniqueKey key w"
| "exec (ProcessInvalidProxyUniqueKey_proxy key p invalidateSurface) w =
     processInvalidProxyUniqueKey_proxy key p invalidateSurface w"
| "exec (FindProxyByUniqueKey key origin) w = w"
| "exec (CreateProxy desc origin mipMapped fit budgeted surfaceFlags) w =
     snd (createProxy desc origin mipMapped fit budgeted surfaceFlags w)"
| "exec (CreateProxy_overload desc origin fit budgeted surfaceFlags) w =
     snd (createProxy_overload createProxy desc origin fit budgeted surfaceFlags w)"
| "exec Abandon w = w\<lparr>provider := abandon (provider w)\<rparr>"
| "exec (ReleaseProxy p) w = releaseProxy p w"
| "exec (Instantiate p surf) w = instantiate p surf w"

definition run :: "call list \<Rightarrow> world \<Rightarrow> world" where
  "run calls w = fold exec calls w"

section \<open>The assertion of isAbandoned\<close>

text \<open>The condition that \<open>isAbandoned\<close> asserts in debug builds.\<close>

definition nullWhenAbandoned :: "GrProxyProvider \<Rightarrow> bool" where
  "nullWhenAbandoned s \<longleftrightarrow>
     (fAbandoned s \<longrightarrow> fResourceCache s = None \<and> fResourceProvider s = None)"

section \<open>Example states\<close>

text \<open>
  Two proxies are created; the first gets the key \<open>keyA\<close> and is instantiated with the
  surface at address 5, which carries \<open>keyA\<close> itself; assigning \<open>keyA\<close> to the second
  proxy is attempted.
\<close>

definition exampleDesc :: GrSurfaceDesc where
  "exampleDesc = \<lparr>fWidth = 64, fHeight = 64, fConfig = 0, fSampleCnt = 1\<rparr>"

definition keyA :: GrUniqueKey where
  "keyA = \<lparr>keyHash = 7, keyDomain = None\<rparr>"

definition keyB :: GrUniqueKey where
  "keyB = \<lparr>keyHash = 9, keyDomain = Some 1\<rparr>"

definition exampleSurface :: GrSurface where
  "exampleSurface = \<lparr>surfWidth = 64, surfHeight = 64, surfUniqueKey = Some keyA\<rparr>"

definition exampleCalls :: "call list" where
  "exampleCalls =
     [CreateProxy exampleDesc kTopLeft_GrSurfaceOrigin GrMipMapped_kNo SkBackingFit_kExact
        SkBudgeted_kYes 0,
      CreateProxy exampleDesc kTopLeft_GrSurfaceOrigin GrMipMapped_kNo SkBackingFit_kExact
        SkBudgeted_kYes 0,
      AssignUniqueKeyToProxy keyA 0,
      Instantiate 0 5,
      AssignUniqueKeyToProxy keyA 1]"

definition exampleWorld :: world where
  "exampleWorld = run exampleCalls (newWorld (Some 1) (Some 2) (Some 3) [5 \<mapsto> exampleSurface])"

definition keyedProxy :: GrTextureProxy where
  "keyedProxy = \<lparr>fDesc = exampleDesc, fOrigin = kTopLeft_GrSurfaceOrigin,
     fMipMapped = GrMipMapped_kNo, fFit = SkBackingFit_kExact, fBudgeted = SkBudgeted_kYes,
     fSurfaceFlags = 0, fUniqueKey = Some keyA, fTarget = Some 5\<rparr>"

definition approxProxy :: "ptr \<Rightarrow> GrTextureProxy" where
  "approxProxy surf = \<lparr>fDesc = \<lparr>fWidth = 100, fHeight = 100, fConfig = 0, fSampleCnt = 1\<rparr>,
     fOrigin = kTopLeft_GrSurfaceOrigin, fMipMapped = GrMipMapped_kNo,
     fFit = SkBackingFit_kApprox, fBudgeted = SkBudgeted_kYes, fSurfaceFlags = 0,
     fUniqueKey = None, fTarget = Some surf\<rparr>"

definition exampleBackend :: "ptr \<rightharpoonup> GrSurface" where
  "exampleBackend =
     [0 \<mapsto> \<lparr>surfWidth = 128, surfHeight = 128, surfUniqueKey = None\<rparr>,
      1 \<mapsto> \<lparr>surfWidth = 100, surfHeight = 100, surfUniqueKey = None\<rparr>]"

section \<open>Properties of the inline member functions\<close>

lemma abandon_fields:
  "fResourceCache (abandon s) = None"
  "fResourceProvider (abandon s) = None"
  "fAbandoned (abandon s)"
  "fUniquelyKeyedProxies (abandon s) = fUniquelyKeyedProxies s"
  "fCaps (abandon s) = fCaps s"
  by (simp_all add: abandon_def)

text \<open>
  C7: \<open>recordingDDL\<close> is true exactly when the resource provider pointer is null.
\<close>

theorem recordingDDL_iff_null:
  "recordingDDL s = (fResourceProvider s = None)"
  by (simp add: recordingDDL_def SkToBool_def)

text \<open>
  C9: whatever the full \<open>createProxy\<close> overload is, the shorter overload returns what
  the full one returns with \<open>GrMipMapped::kNo\<close> in the mip-mapped position and the other
  arguments as given; called without surface flags, it passes \<open>kNone\<close>.
\<close>

theorem createProxy_overload_forwards:
  "createProxy_overload full desc origin fit budgeted surfaceFlags w =
     full desc origin GrMipMapped_kNo fit budgeted surfaceFlags w
   \<and> createProxy_overload_default full desc origin fit budgeted w =
     full desc origin GrMipMapped_kNo fit budgeted GrInternalSurfaceFlags_kNone w"
  by (simp add: createProxy_overload_def createProxy_overload_default_def)

text \<open>
  C10: after \<open>abandon\<close>, \<open>recordingDDL\<close> returns true, which is the answer of any provider
  whose resource provider pointer is null, whatever its other members are.
\<close>

theorem abandon_recordingDDL:
  "recordingDDL (abandon s)
   \<and> recordingDDL (abandon s) = recordingDDL (t\<lparr>fResourceProvider := None\<rparr>)"
  by (simp add: recordingDDL_def SkToBool_def abandon_def)

section \<open>The pointers of an abandoned provider\<close>

text \<open>
  No call but \<open>abandon\<close> writes the abandoned flag or the two backend pointers.
\<close>

lemma assign_provider_frame:
  "fAbandoned (provider (snd (assignUniqueKeyToProxy key p w))) = fAbandoned (provider w)
   \<and> fResourceCache (provider (snd (assignUniqueKeyToProxy key p w))) = fResourceCache (provider w)
   \<and> fResourceProvider (provider (snd (assignUniqueKeyToProxy key p w))) = fResourceProvider (provider w)"
  by (simp add: assignUniqueKeyToProxy_def split: option.splits)

lemma processInvalid_proxy_provider_frame:
  "fAbandoned (provider (processInvalidProxyUniqueKey_proxy key p b w)) = fAbandoned (provider w)
   \<and> fResourceCache (provider (processInvalidProxyUniqueKey_proxy key p b w)) = fResourceCache (provider w)
   \<and> fResourceProvider (provider (processInvalidProxyUniqueKey_proxy key p b w)) = fResourceProvider (provider w)"
  by (simp add: processInvalidProxyUniqueKey_proxy_def Let_def split: option.splits)

lemma nullWhenAbandoned_exec:
  "nullWhenAbandoned (provider w) \<Longrightarrow> nullWhenAbandoned (provider (exec c w))"
proof (cases c)
  case Abandon
  then show ?thesis by (simp add: nullWhenAbandoned_def abandon_fields)
next
  case (ReleaseProxy p)
  assume "nullWhenAbandoned (provider w)"
  then show ?thesis using ReleaseProxy processInvalid_proxy_provider_frame
    by (simp add: nullWhenAbandoned_def releaseProxy_def Let_def split: option.splits)
qed (simp_all add: nullWhenAbandoned_def assign_provider_frame processInvalid_proxy_provider_frame
       adoptUniqueKeyFromSurface_def removeUniqueKeyFromProxy_def processInvalidProxyUniqueKey_def
       createProxy_def createProxy_overload_def instantiate_def split: option.splits)

lemma nullWhenAbandoned_run:
  "nullWhenAbandoned (provider w) \<Longrightarrow> nullWhenAbandoned (provider (run calls w))"
  unfolding run_def by (induction calls arbitrary: w) (simp_all add: nullWhenAbandoned_exec)

lemma nullWhenAbandoned_new: "nullWhenAbandoned (provider (newWorld rp rc cp backend))"
  by (simp add: nullWhenAbandoned_def newWorld_def GrProxyProvider_new_def)

text \<open>
  C4: \<open>abandon\<close> sets the resource cache pointer and the resource provider pointer to
  null and marks the provider abandoned, so \<open>isAbandoned\<close> returns true afterwards, in
  debug builds too. In every state that a sequence of calls reaches from a newly
  constructed provider, the assertion of \<open>isAbandoned\<close> holds, and when \<open>isAbandoned\<close>
  returns true both pointers are null.
\<close>

theorem abandon_isAbandoned:
  "isAbandoned sk_debug (abandon s) = Inr True
   \<and> fResourceCache (abandon s) = None \<and> fResourceProvider (abandon s) = None
   \<and> isAbandoned sk_debug (provider (run calls (newWorld rp rc cp backend))) =
       Inr (fAbandoned (provider (run calls (newWorld rp rc cp backend))))
   \<and> (isAbandoned sk_debug (provider (run calls (newWorld rp rc cp backend))) = Inr True \<longrightarrow>
        fResourceCache (provider (run calls (newWorld rp rc cp backend))) = None \<and>
        fResourceProvider (provider (run calls (newWorld rp rc cp backend))) = None)"
proof -
  have "nullWhenAbandoned (provider (run calls (newWorld rp rc cp backend)))"
    by (rule nullWhenAbandoned_run [OF nullWhenAbandoned_new])
  then show ?thesis
    by (auto simp: nullWhenAbandoned_def isAbandoned_def SkToBool_def abandon_fields)
qed

text \<open>
  The theorem at a provider bound to a resource provider and a cache, and then abandoned.
\<close>

theorem abandon_isAbandoned_witness:
  "isAbandoned True (abandon (GrProxyProvider_new (Some 1) (Some 2) (Some 3))) = Inr True
   \<and> isAbandoned True
       (provider (run [Abandon] (newWorld (Some 1) (Some 2) (Some 3) Map.empty))) = Inr True
   \<and> fResourceCache
       (provider (run [Abandon] (newWorld (Some 1) (Some 2) (Some 3) Map.empty))) = None
   \<and> fResourceProvider
       (provider (run [Abandon] (newWorld (Some 1) (Some 2) (Some 3) Map.empty))) = None"
proof -
  have a: "isAbandoned True
       (provider (run [Abandon] (newWorld (Some 1) (Some 2) (Some 3) Map.empty))) = Inr True"
    by code_simp
  show ?thesis
    using a abandon_isAbandoned [of True "GrProxyProvider_new (Some 1) (Some 2) (Some 3)"
        "[Abandon]" "Some 1" "Some 2" "Some 3" Map.empty]
    by blast
qed

section \<open>Assigning a key\<close>

text \<open>
  C2: for a proxy that already carries a unique key, \<open>assignUniqueKeyToProxy\<close> returns
  false and leaves the whole state as it was: the key of the proxy and the table.
\<close>

theorem assign_second_key_fails:
  "proxies w p = Some px \<Longrightarrow> fUniqueKey px = Some oldKey \<Longrightarrow>
     assignUniqueKeyToProxy key p w = (False, w)"
  by (simp add: assignUniqueKeyToProxy_def)

text \<open>
  The theorem at the example: the first proxy carries \<open>keyA\<close>, and \<open>keyB\<close> is refused.
\<close>

theorem assign_second_key_fails_witness:
  "proxies exampleWorld 0 = Some keyedProxy
   \<and> fUniqueKey keyedProxy = Some keyA
   \<and> assignUniqueKeyToProxy keyB 0 exampleWorld = (False, exampleWorld)"
proof -
  have a: "proxies exampleWorld 0 = Some keyedProxy" by code_simp
  have b: "fUniqueKey keyedProxy = Some keyA" by code_simp
  show ?thesis
    using a b assign_second_key_fails [OF a b, of keyB] by blast
qed

section \<open>Removing a key\<close>


lemma table_find_None_iff:
  "table_find w key = None \<longleftrightarrow>
     (\<forall>p \<in> set (fUniquelyKeyedProxies (provider w)). proxyKey w p \<noteq> Some key)"
  by (auto simp: table_find_def find_None_iff)

lemma table_find_SomeD:
  "table_find w key = Some p \<Longrightarrow>
     p \<in> set (fUniquelyKeyedProxies (provider w)) \<and> proxyKey w p = Some key"
  by (auto simp: table_find_def find_Some_iff)

text \<open>
  In a list whose keys are distinct, erasing the first entry with a key leaves no entry
  with that key.
\<close>

lemma remove_first_no_key:
  "distinct (List.map_filter f xs) \<Longrightarrow> q \<in> set (remove_first (\<lambda>x. f x = Some k) xs) \<Longrightarrow>
     f q \<noteq> Some k"
proof (induction xs)
  case Nil
  then show ?case by simp
next
  case (Cons x xs)
  show ?case
  proof (cases "f x = Some k")
    case True
    then have "k \<notin> set (List.map_filter f xs)"
      using Cons.prems(1) by (simp add: map_filter_simps)
    moreover have "q \<in> set xs" using Cons.prems(2) True by simp
    ultimately show ?thesis by (force simp: map_filter_def)
  next
    case False
    have d: "distinct (List.map_filter f xs)"
      using Cons.prems(1) by (simp add: map_filter_simps split: option.splits)
    show ?thesis
    proof (cases "q = x")
      case True
      then show ?thesis using False by simp
    next
      case neq: False
      then have "q \<in> set (remove_first (\<lambda>x. f x = Some k) xs)"
        using Cons.prems(2) False by simp
      then show ?thesis using Cons.IH d by blast
    qed
  qed
qed

lemma processInvalid_not_found:
  assumes d: "distinct (tableKeys w)" and na: "\<not> fAbandoned (provider w)"
  shows "table_find (processInvalidProxyUniqueKey key w) key = None"
proof (cases "table_find w key")
  case None
  then show ?thesis by (simp add: processInvalidProxyUniqueKey_def)
next
  case (Some p)
  then have pk: "proxyKey w p = Some key" by (simp add: table_find_SomeD)
  then obtain px where px: "proxies w p = Some px" and hk: "GetKey px = Some key"
    by (auto simp: proxyKey_def split: option.splits)
  define w1 where
    "w1 = w\<lparr>provider := (provider w)\<lparr>fUniquelyKeyedProxies := table_remove w key\<rparr>,
            proxies := (proxies w)(p \<mapsto> px\<lparr>fUniqueKey := None\<rparr>)\<rparr>"
  have key1: "\<And>q. proxyKey w1 q = (if q = p then None else proxyKey w q)"
    by (simp add: w1_def proxyKey_def GetKey_def)
  have tbl1: "fUniquelyKeyedProxies (provider w1) = table_remove w key"
    by (simp add: w1_def)
  have "\<And>q. q \<in> set (table_remove w key) \<Longrightarrow> proxyKey w q \<noteq> Some key"
    using d unfolding table_remove_def tableKeys_def by (rule remove_first_no_key)
  then have nf: "table_find w1 key = None"
    unfolding table_find_None_iff tbl1 key1 by simp
  have "table_find (processInvalidProxyUniqueKey key w) key = table_find w1 key"
    using na Some px hk
    by (simp add: processInvalidProxyUniqueKey_def processInvalidProxyUniqueKey_proxy_def
          Let_def w1_def table_find_def proxyKey_def split: option.splits)
  then show ?thesis using nf by simp
qed

text \<open>
  C5: removing by key alone a key that is not in the table changes nothing, so every
  entry stays as it was; and in a state whose table holds no two entries with equal
  keys, removing a key a second time changes nothing more.
\<close>

theorem processInvalid_absent_noop:
  "(table_find w key = None \<longrightarrow> processInvalidProxyUniqueKey key w = w)
   \<and> (distinct (tableKeys w) \<longrightarrow>
        processInvalidProxyUniqueKey key (processInvalidProxyUniqueKey key w) =
        processInvalidProxyUniqueKey key w)"
proof -
  have "processInvalidProxyUniqueKey key (processInvalidProxyUniqueKey key w) =
        processInvalidProxyUniqueKey key w" if d: "distinct (tableKeys w)"
  proof (cases "fAbandoned (provider w)")
    case True
    then show ?thesis by (simp add: processInvalidProxyUniqueKey_def)
  next
    case False
    have "table_find (processInvalidProxyUniqueKey key w) key = None"
      by (rule processInvalid_not_found [OF d False])
    then show ?thesis
      by (simp add: processInvalidProxyUniqueKey_def [of key "processInvalidProxyUniqueKey key w"])
  qed
  then show ?thesis by (simp add: processInvalidProxyUniqueKey_def)
qed

text \<open>
  The theorem at the example, whose table holds the one key \<open>keyA\<close>: \<open>keyB\<close> is absent,
  and removing \<open>keyA\<close> twice is removing it once.
\<close>

theorem processInvalid_absent_noop_witness:
  "table_find exampleWorld keyB = None
   \<and> processInvalidProxyUniqueKey keyB exampleWorld = exampleWorld
   \<and> distinct (tableKeys exampleWorld)
   \<and> fUniquelyKeyedProxies (provider exampleWorld) = [0]
   \<and> fUniquelyKeyedProxies (provider (processInvalidProxyUniqueKey keyA exampleWorld)) = []
   \<and> processInvalidProxyUniqueKey keyA (processInvalidProxyUniqueKey keyA exampleWorld) =
       processInvalidProxyUniqueKey keyA exampleWorld"
proof -
  have a: "table_find exampleWorld keyB = None" by code_simp
  have b: "fUniquelyKeyedProxies (provider exampleWorld) = [0]" by code_simp
  have c: "fUniquelyKeyedProxies (provider (processInvalidProxyUniqueKey keyA exampleWorld)) = []"
    by code_simp
  have d: "distinct (tableKeys exampleWorld)" by code_simp
  have e: "processInvalidProxyUniqueKey keyB exampleWorld = exampleWorld"
    using a processInvalid_absent_noop [of exampleWorld keyB] by blast
  have f: "processInvalidProxyUniqueKey keyA (processInvalidProxyUniqueKey keyA exampleWorld) =
       processInvalidProxyUniqueKey keyA exampleWorld"
    using d processInvalid_absent_noop [of exampleWorld keyA] by blast
  show ?thesis using a b c d e f by blast
qed



section \<open>Functional exactness\<close>

text \<open>
  C8: for an instantiated proxy with the approximate fit policy and a requested size of
  100 by 100, \<open>IsFunctionallyExact\<close> is true exactly when the backend surface is 100 by
  100; in particular it is false when the surface is larger.
\<close>

theorem IsFunctionallyExact_approx_instantiated:
  assumes "fFit proxy = SkBackingFit_kApprox"
    and "fWidth (fDesc proxy) = 100" and "fHeight (fDesc proxy) = 100"
    and "fTarget proxy = Some surf" and "backend surf = Some sf"
  shows "IsFunctionallyExact pendingExact backend proxy =
           (surfWidth sf = 100 \<and> surfHeight sf = 100)
         \<and> (100 \<le> surfWidth sf \<and> 100 \<le> surfHeight sf \<and>
            (100 < surfWidth sf \<or> 100 < surfHeight sf) \<longrightarrow>
              \<not> IsFunctionallyExact pendingExact backend proxy)"
  using assms by (auto simp: IsFunctionallyExact_def)

text \<open>
  The theorem at a surface padded to 128 by 128 and at a surface of 100 by 100.
\<close>

theorem IsFunctionallyExact_approx_instantiated_witness:
  "\<not> IsFunctionallyExact (\<lambda>p. True) exampleBackend (approxProxy 0)
   \<and> IsFunctionallyExact (\<lambda>p. False) exampleBackend (approxProxy 1)"
proof -
  have a: "exampleBackend 0 = Some \<lparr>surfWidth = 128, surfHeight = 128, surfUniqueKey = None\<rparr>"
    by (simp add: exampleBackend_def)
  have b: "exampleBackend 1 = Some \<lparr>surfWidth = 100, surfHeight = 100, surfUniqueKey = None\<rparr>"
    by (simp add: exampleBackend_def)
  have 1: "\<not> IsFunctionallyExact (\<lambda>p. True) exampleBackend (approxProxy 0)"
    using a IsFunctionallyExact_approx_instantiated
        [where proxy = "approxProxy 0" and surf = 0 and backend = exampleBackend
           and sf = "\<lparr>surfWidth = 128, surfHeight = 128, surfUniqueKey = None\<rparr>"
           and pendingExact = "\<lambda>p. True"]
    by (simp add: approxProxy_def)
  have 2: "IsFunctionallyExact (\<lambda>p. False) exampleBackend (approxProxy 1)"
    using b IsFunctionallyExact_approx_instantiated
        [where proxy = "approxProxy 1" and surf = 1 and backend = exampleBackend
           and sf = "\<lparr>surfWidth = 100, surfHeight = 100, surfUniqueKey = None\<rparr>"
           and pendingExact = "\<lambda>p. False"]
    by (simp add: approxProxy_def)
  show ?thesis using 1 2 by blast
qed

end
